theory Spec2Isabelle
  imports Main
begin

section \<open>The marker of \<^verbatim>\<open>injection/provide.py\<close>\<close>

text \<open>
  The source:
  \<^verbatim>\<open>
  class ClassGetItemMeta(Generic[T], type):
      def __getitem__(cls, item: BaseProvider[T]) -> T:
          return cls(item)

  class Provide(metaclass=ClassGetItemMeta):
      def __init__(self, provider: BaseProvider[T]) -> None:
          self.provider = provider

      def __call__(self) -> T:
          return self
  \<close>
  The claims are about object identity (\<^verbatim>\<open>marker() is marker\<close>, two constructions give
  two objects), so objects live in an explicit store and are named by their address.
\<close>

subsection \<open>Values, objects, the store\<close>

text \<open>
  A Python value is a reference. \<open>Inst a\<close> refers to the instance of \<^verbatim>\<open>Provide\<close> at
  address \<open>a\<close> of the store. \<open>Extern x\<close> refers to an object that is not of this
  component: a provider, or anything else a caller passes. \<^verbatim>\<open>BaseProvider\<close> occurs
  in the source as an annotation only, so the type \<open>'x\<close> of these objects is a parameter
  of the whole development; equality on \<open>'x\<close> is their identity.
\<close>

datatype 'x val = Extern 'x | Inst nat

text \<open>An instance is its \<^verbatim>\<open>__dict__\<close>: the attributes that have been set on it.\<close>

type_synonym 'x obj = "string \<rightharpoonup> 'x val"

text \<open>
  The store holds the instances of \<^verbatim>\<open>Provide\<close> created so far, in the order of their
  creation; the address of an instance is its position. Nothing is ever removed from it
  while a reference to it is held, so two live instances never share an address.
\<close>

type_synonym 'x heap = "'x obj list"

text \<open>
  \<open>TypeError\<close> and \<open>AttributeError\<close> are Python's. \<open>DanglingRef\<close> is no Python
  exception: it is the result of following an address that the store does not hold, which
  no Python program can do; it keeps the functions below total without leaving anything
  unspecified.
\<close>

datatype error = TypeError | AttributeError | DanglingRef

subsection \<open>What the interpreter does for the source\<close>

text \<open>\<^verbatim>\<open>object.__new__(cls)\<close>: a new instance, with no attribute, at the next address.\<close>

definition object_new :: "'x heap \<Rightarrow> 'x heap \<times> nat" where
  "object_new h = (h @ [Map.empty], length h)"

text \<open>\<^verbatim>\<open>obj.name = v\<close> on the instance at address \<open>a\<close>.\<close>

definition setattr :: "'x heap \<Rightarrow> nat \<Rightarrow> string \<Rightarrow> 'x val \<Rightarrow> error + 'x heap" where
  "setattr h a name v =
     (if a < length h then Inr (h[a := (h ! a)(name \<mapsto> v)]) else Inl DanglingRef)"

text \<open>
  \<^verbatim>\<open>obj.name\<close> on the instance at address \<open>a\<close>, for a name that the class does not
  define, such as \<^verbatim>\<open>provider\<close>: the lookup in the instance's \<^verbatim>\<open>__dict__\<close>. It
  reads, and changes nothing. (Names found on the class, such as \<^verbatim>\<open>__call__\<close>, are not
  covered: nothing below reads them.)
\<close>

definition getattr :: "'x heap \<Rightarrow> nat \<Rightarrow> string \<Rightarrow> error + 'x val" where
  "getattr h a name =
     (if a < length h
      then (case (h ! a) name of None \<Rightarrow> Inl AttributeError | Some v \<Rightarrow> Inr v)
      else Inl DanglingRef)"

subsection \<open>The source's three functions\<close>

text \<open>
  \<^verbatim>\<open>Provide.__init__(self, provider)\<close>, applied to the positional arguments of the call.
  With any number of arguments but one, binding them to the signature raises
  \<^verbatim>\<open>TypeError\<close> before the body runs.
\<close>

fun Provide_init :: "'x heap \<Rightarrow> nat \<Rightarrow> 'x val list \<Rightarrow> 'x heap \<times> (error + unit)" where
  "Provide_init h self [provider] =
     (case setattr h self ''provider'' provider of
        Inl e \<Rightarrow> (h, Inl e)
      | Inr h' \<Rightarrow> (h', Inr ()))"
| "Provide_init h self args = (h, Inl TypeError)"

text \<open>
  \<^verbatim>\<open>Provide.__call__(self)\<close>, applied to the positional arguments of the call: with no
  argument it returns \<^verbatim>\<open>self\<close>.
\<close>

fun Provide_call :: "'x heap \<Rightarrow> nat \<Rightarrow> 'x val list \<Rightarrow> 'x heap \<times> (error + 'x val)" where
  "Provide_call h self [] = (h, Inr (Inst self))"
| "Provide_call h self args = (h, Inl TypeError)"

text \<open>
  \<^verbatim>\<open>cls(*args)\<close> for \<^verbatim>\<open>cls = Provide\<close>, that is \<^verbatim>\<open>type.__call__\<close>: a new instance
  from \<^verbatim>\<open>object.__new__\<close>, then \<^verbatim>\<open>__init__\<close> on it, then the instance is the result.
  When \<^verbatim>\<open>__init__\<close> raises, no reference to the new instance is left and it is
  reclaimed: the store is the one before the call.
\<close>

definition type_call :: "'x heap \<Rightarrow> 'x val list \<Rightarrow> 'x heap \<times> (error + 'x val)" where
  "type_call h args =
     (case object_new h of
        (h1, obj) \<Rightarrow>
          (case Provide_init h1 obj args of
             (h2, Inr _) \<Rightarrow> (h2, Inr (Inst obj))
           | (_, Inl e) \<Rightarrow> (h, Inl e)))"

text \<open>
  \<^verbatim>\<open>ClassGetItemMeta.__getitem__(cls, item)\<close>, which \<^verbatim>\<open>Provide[item]\<close> runs, with
  \<^verbatim>\<open>cls = Provide\<close> (the one class of the source with this metaclass).
\<close>

definition ClassGetItemMeta_getitem :: "'x heap \<Rightarrow> 'x val \<Rightarrow> 'x heap \<times> (error + 'x val)" where
  "ClassGetItemMeta_getitem h item = type_call h [item]"

subsection \<open>Using the component\<close>

text \<open>
  Construction and invocation, as a caller writes them: subscript the class
  (\<^verbatim>\<open>Provide[p]\<close>), call the class (\<^verbatim>\<open>Provide(*args)\<close>), and call a marker
  (\<^verbatim>\<open>m(*args)\<close>). A step runs one of them and keeps the store; an exception is caught
  by the caller and the program goes on. Running \<^verbatim>\<open>__init__\<close> again on a marker and
  assigning to its attributes are not among them.
\<close>

datatype 'x op = Subscript "'x val" | Construct "'x val list" | Invoke nat "'x val list"

fun step :: "'x heap \<Rightarrow> 'x op \<Rightarrow> 'x heap" where
  "step h (Subscript p) = fst (ClassGetItemMeta_getitem h p)"
| "step h (Construct args) = fst (type_call h args)"
| "step h (Invoke m args) = fst (Provide_call h m args)"

fun run :: "'x heap \<Rightarrow> 'x op list \<Rightarrow> 'x heap" where
  "run h [] = h"
| "run h (x # xs) = run (step h x) xs"

text \<open>
  \<^verbatim>\<open>[m() for _ in range(n)]\<close>: the marker at address \<open>m\<close> called \<open>n\<close> times in a row,
  with the results in the order of the calls.
\<close>

fun call_times :: "nat \<Rightarrow> 'x heap \<Rightarrow> nat \<Rightarrow> 'x heap \<times> (error + 'x val) list" where
  "call_times 0 h m = (h, [])"
| "call_times (Suc n) h m =
     (case Provide_call h m [] of
        (h1, r) \<Rightarrow> (case call_times n h1 m of (h2, rs) \<Rightarrow> (h2, r # rs)))"

text \<open>
  Replacing every external object \<open>x\<close> by \<open>f x\<close>, in a value (\<open>map_val f\<close>), an
  instance, a store and the outcome of an operation.
\<close>

definition relabel_obj :: "('x \<Rightarrow> 'y) \<Rightarrow> 'x obj \<Rightarrow> 'y obj" where
  "relabel_obj f d = (\<lambda>name. map_option (map_val f) (d name))"

definition relabel_heap :: "('x \<Rightarrow> 'y) \<Rightarrow> 'x heap \<Rightarrow> 'y heap" where
  "relabel_heap f h = map (relabel_obj f) h"

definition relabel_outcome ::
  "('x \<Rightarrow> 'y) \<Rightarrow> 'x heap \<times> (error + 'x val) \<Rightarrow> 'y heap \<times> (error + 'y val)" where
  "relabel_outcome f r = (relabel_heap f (fst r), map_sum id (map_val f) (snd r))"

section \<open>Basic facts\<close>

lemma type_call_one: "type_call h [p] = (h @ [[''provider'' \<mapsto> p]], Inr (Inst (length h)))"
  by (simp add: type_call_def object_new_def setattr_def)

lemma getitem_eq:
  "ClassGetItemMeta_getitem h p = (h @ [[''provider'' \<mapsto> p]], Inr (Inst (length h)))"
  by (simp add: ClassGetItemMeta_getitem_def type_call_one)

lemma type_call_arity: "length args \<noteq> 1 \<Longrightarrow> type_call h args = (h, Inl TypeError)"
  by (cases "(h @ [Map.empty], length h, args)" rule: Provide_init.cases)
     (simp_all add: type_call_def object_new_def)

lemma Provide_call_heap: "fst (Provide_call h m args) = h"
  by (cases args) simp_all

lemma step_cases: "step h x = h \<or> (\<exists>p. step h x = h @ [[''provider'' \<mapsto> p]])"
proof (cases x)
  case (Subscript p)
  then have "step h x = h @ [[''provider'' \<mapsto> p]]"
    by (simp add: getitem_eq)
  then show ?thesis by blast
next
  case (Construct args)
  show ?thesis
  proof (cases "length args = 1")
    case True
    then obtain p where "args = [p]"
      by (cases args) auto
    with Construct have "step h x = h @ [[''provider'' \<mapsto> p]]"
      by (simp add: type_call_one)
    then show ?thesis by blast
  next
    case False
    with Construct show ?thesis by (simp add: type_call_arity)
  qed
next
  case (Invoke m args)
  then show ?thesis by (simp add: Provide_call_heap)
qed

lemma run_extends:
  "\<exists>ds. run h ops = h @ ds \<and> (\<forall>d \<in> set ds. \<exists>p. d = [''provider'' \<mapsto> p])"
proof (induction ops arbitrary: h)
  case Nil
  show ?case by simp
next
  case (Cons x xs)
  from Cons.IH [of "step h x"] obtain ds where
    ds: "run (step h x) xs = step h x @ ds" "\<forall>d \<in> set ds. \<exists>p. d = [''provider'' \<mapsto> p]"
    by blast
  from step_cases [of h x] show ?case
  proof
    assume "step h x = h"
    with ds(1) have "run h (x # xs) = h @ ds"
      by simp
    with ds(2) show ?thesis by blast
  next
    assume "\<exists>p. step h x = h @ [[''provider'' \<mapsto> p]]"
    then obtain p where "step h x = h @ [[''provider'' \<mapsto> p]]" ..
    with ds have "run h (x # xs) = h @ ([''provider'' \<mapsto> p] # ds)"
      by simp
    moreover from ds(2) have "\<forall>d \<in> set ([''provider'' \<mapsto> p] # ds). \<exists>q. d = [''provider'' \<mapsto> q]"
      by auto
    ultimately show ?thesis by blast
  qed
qed

lemma run_length: "length h \<le> length (run h ops)"
  using run_extends [of h ops] by auto

lemma run_keeps: "a < length h \<Longrightarrow> run h ops ! a = h ! a"
  using run_extends [of h ops] by (auto simp: nth_append)

lemma run_getattr: "a < length h \<Longrightarrow> getattr (run h ops) a name = getattr h a name"
  using run_length [of h ops] by (simp add: getattr_def run_keeps)

lemma getattr_new: "getattr (h @ [[''provider'' \<mapsto> p]]) (length h) ''provider'' = Inr p"
  by (simp add: getattr_def)

lemma call_times_eq: "call_times n h m = (h, replicate n (Inr (Inst m)))"
  by (induction n) simp_all

lemma run_marker_shape:
  "list_all (\<lambda>d. dom d = {''provider''}) h \<Longrightarrow>
   list_all (\<lambda>d. dom d = {''provider''}) (run h ops)"
proof -
  assume h: "list_all (\<lambda>d. dom d = {''provider''}) h"
  from run_extends [of h ops] obtain ds where
    ds: "run h ops = h @ ds" "\<forall>d \<in> set ds. \<exists>p. d = [''provider'' \<mapsto> p]"
    by blast
  have "dom d = {''provider''}" if "d \<in> set ds" for d
  proof -
    from ds(2) that obtain p where "d = [''provider'' \<mapsto> p]"
      by blast
    then show ?thesis by simp
  qed
  then have "list_all (\<lambda>d. dom d = {''provider''}) ds"
    by (simp add: list_all_iff)
  with h ds(1) show ?thesis by simp
qed

lemma relabel_new: "relabel_obj f [''provider'' \<mapsto> p] = [''provider'' \<mapsto> map_val f p]"
  by (auto simp: relabel_obj_def)

text \<open>
  The error branches are real: the class called with no argument, or with two, raises
  \<^verbatim>\<open>TypeError\<close>, and so does a marker called with an argument.
\<close>

lemma type_call_no_argument: "type_call h [] = (h, Inl TypeError)"
  by (simp add: type_call_arity)

lemma Provide_call_with_argument: "Provide_call h m [v] = (h, Inl TypeError)"
  by simp

section \<open>The claims\<close>

text \<open>
  C1. Calling a marker with no argument returns the marker itself: the reference to the
  very instance that was called, in an unchanged store. This holds for the instance at any
  address \<open>m\<close>, and in particular for the marker that \<^verbatim>\<open>Provide[p]\<close> or
  \<^verbatim>\<open>Provide(p)\<close> has just returned, whatever the provider \<open>p\<close> is: the result is the
  marker, not a value obtained from \<open>p\<close>.
\<close>

theorem marker_call_is_marker:
  "Provide_call h m [] = (h, Inr (Inst m)) \<and>
   (case ClassGetItemMeta_getitem h p of
      (h1, Inr (Inst a)) \<Rightarrow> Provide_call h1 a [] = (h1, Inr (Inst a))
    | _ \<Rightarrow> False) \<and>
   (case type_call h [p] of
      (h1, Inr (Inst a)) \<Rightarrow> Provide_call h1 a [] = (h1, Inr (Inst a))
    | _ \<Rightarrow> False)"
  by (simp add: getitem_eq type_call_one)

text \<open>
  C2. For every provider \<open>p\<close>, \<^verbatim>\<open>Provide[p]\<close> is the call \<^verbatim>\<open>Provide(p)\<close>: it adds one
  instance to the store, whose only attribute is \<^verbatim>\<open>provider\<close> with the value \<open>p\<close>,
  leaves the instances already there as they are, and returns the reference to the new
  instance.
\<close>

theorem subscript_constructs_marker:
  "ClassGetItemMeta_getitem h p = type_call h [p] \<and>
   ClassGetItemMeta_getitem h p = (h @ [[''provider'' \<mapsto> p]], Inr (Inst (length h)))"
  by (simp add: ClassGetItemMeta_getitem_def type_call_one)

text \<open>
  C3, as the spec states it, fails: a marker is not immutable after construction. The
  class has no \<^verbatim>\<open>__slots__\<close>, no \<^verbatim>\<open>__setattr__\<close> and no other guard, so the
  source's own \<^verbatim>\<open>Provide.__init__\<close>, run on a marker that wraps \<open>P\<close>, rewraps it to
  \<open>Q\<close>, and an assignment \<^verbatim>\<open>m.tag = T\<close> gives the marker a second attribute.
\<close>

theorem marker_rewrapped_counterexample:
  "getattr [[''provider'' \<mapsto> Extern ''P'']] 0 ''provider'' = Inr (Extern ''P'') \<and>
   Provide_init [[''provider'' \<mapsto> Extern ''P'']] 0 [Extern ''Q''] =
     ([[''provider'' \<mapsto> Extern ''Q'']], Inr ()) \<and>
   getattr (fst (Provide_init [[''provider'' \<mapsto> Extern ''P'']] 0 [Extern ''Q''])) 0 ''provider'' =
     Inr (Extern ''Q'') \<and>
   Inr (Extern ''Q'') \<noteq> (Inr (Extern ''P'') :: error + string val) \<and>
   (case setattr [[''provider'' \<mapsto> Extern ''P'']] 0 ''tag'' (Extern ''T'') of
      Inr h1 \<Rightarrow> dom (h1 ! 0) = {''provider'', ''tag''} \<and> dom (h1 ! 0) \<noteq> {''provider''}
    | Inl e \<Rightarrow> False)"
  by (auto simp: getattr_def setattr_def)

text \<open>
  C3, amended. Construction and invocation, the operations the component offers a caller,
  change no marker. Over any sequence \<open>ops\<close> of subscriptions \<^verbatim>\<open>Provide[p]\<close>,
  constructor calls \<^verbatim>\<open>Provide(*args)\<close> and marker calls \<^verbatim>\<open>m(*args)\<close> (with any
  arguments, failing ones included): an instance \<open>a\<close> of the store stays in the store
  with all its attributes as they were, so its \<^verbatim>\<open>provider\<close> reads the same; when every
  instance carries the attribute \<^verbatim>\<open>provider\<close> and no other, this is still so
  afterwards; and the marker that \<^verbatim>\<open>Provide[p]\<close> returns wraps \<open>p\<close> and carries
  nothing else, whatever of these is run after its construction. Nothing is said of
  \<^verbatim>\<open>__init__\<close> run again on a marker, or of an assignment to its attributes: those
  do change it, as shown above.
\<close>

theorem marker_never_changes:
  "(a < length h \<longrightarrow>
      a < length (run h ops) \<and> run h ops ! a = h ! a \<and>
      getattr (run h ops) a ''provider'' = getattr h a ''provider'') \<and>
   (list_all (\<lambda>d. dom d = {''provider''}) h \<longrightarrow>
      list_all (\<lambda>d. dom d = {''provider''}) (run h ops)) \<and>
   (case ClassGetItemMeta_getitem h p of
      (h1, Inr (Inst m)) \<Rightarrow>
        getattr (run h1 ops) m ''provider'' = Inr p \<and> dom (run h1 ops ! m) = {''provider''}
    | _ \<Rightarrow> False)"
proof (intro conjI impI)
  assume a: "a < length h"
  with run_length [of h ops] show "a < length (run h ops)" by simp
  from a show "run h ops ! a = h ! a" by (rule run_keeps)
  from a show "getattr (run h ops) a ''provider'' = getattr h a ''provider''"
    by (rule run_getattr)
next
  assume "list_all (\<lambda>d. dom d = {''provider''}) h"
  then show "list_all (\<lambda>d. dom d = {''provider''}) (run h ops)"
    by (rule run_marker_shape)
next
  let ?h1 = "h @ [[''provider'' \<mapsto> p]]"
  have "getattr (run ?h1 ops) (length h) ''provider'' = getattr ?h1 (length h) ''provider''"
    by (rule run_getattr) simp
  moreover have "run ?h1 ops ! length h = ?h1 ! length h"
    by (rule run_keeps) simp
  ultimately show "case ClassGetItemMeta_getitem h p of
      (h1, Inr (Inst m)) \<Rightarrow>
        getattr (run h1 ops) m ''provider'' = Inr p \<and> dom (run h1 ops ! m) = {''provider''}
    | _ \<Rightarrow> False"
    by (simp add: getitem_eq getattr_new)
qed

theorem marker_never_changes_witness:
  "(0::nat) < length [[''provider'' \<mapsto> Extern ''P'']] \<and>
   list_all (\<lambda>d. dom d = {''provider''}) [[''provider'' \<mapsto> Extern ''P'']] \<and>
   getattr (run [[''provider'' \<mapsto> Extern ''P'']]
              [Subscript (Extern ''Q''), Invoke 0 [], Construct [], Invoke 1 [Extern ''Q'']])
      0 ''provider'' = Inr (Extern ''P'') \<and>
   list_all (\<lambda>d. dom d = {''provider''})
     (run [[''provider'' \<mapsto> Extern ''P'']]
        [Subscript (Extern ''Q''), Invoke 0 [], Construct [], Invoke 1 [Extern ''Q'']])"
  using marker_never_changes
    [where a = 0 and h = "[[''provider'' \<mapsto> Extern ''P'']]" and p = "Extern ''R''"
       and ops = "[Subscript (Extern ''Q''), Invoke 0 [], Construct [], Invoke 1 [Extern ''Q'']]"]
  by (simp add: getattr_def)

text \<open>
  C4. For every provider \<open>p\<close>, reading \<^verbatim>\<open>.provider\<close> of the marker constructed from
  \<open>p\<close>, by \<^verbatim>\<open>Provide[p]\<close> or by \<^verbatim>\<open>Provide(p)\<close>, gives exactly \<open>p\<close>.
\<close>

theorem wrapped_provider_read_back:
  "(case ClassGetItemMeta_getitem h p of
      (h1, Inr (Inst m)) \<Rightarrow> getattr h1 m ''provider'' = Inr p
    | _ \<Rightarrow> False) \<and>
   (case type_call h [p] of
      (h1, Inr (Inst m)) \<Rightarrow> getattr h1 m ''provider'' = Inr p
    | _ \<Rightarrow> False)"
  by (simp add: getitem_eq type_call_one getattr_new)

text \<open>
  C5. Construction from one value never raises: for every store and every value \<open>p\<close>,
  an external object or a marker, \<^verbatim>\<open>Provide[p]\<close> and \<^verbatim>\<open>Provide(p)\<close> return a
  reference to an instance.
\<close>

theorem construction_never_fails:
  "(\<exists>h1 m. ClassGetItemMeta_getitem h p = (h1, Inr (Inst m))) \<and>
   (\<exists>h1 m. type_call h [p] = (h1, Inr (Inst m)))"
  by (simp add: getitem_eq type_call_one)

text \<open>
  C6. Invocation is idempotent: calling what a call of the marker returned gives the same
  outcome as the one call, and \<open>n\<close> calls in a row return the same marker \<open>n\<close> times
  and leave the store as it was, for every \<open>n\<close>.
\<close>

theorem invocation_idempotent:
  "(case Provide_call h m [] of
      (h1, Inr (Inst m1)) \<Rightarrow> Provide_call h1 m1 [] = Provide_call h m []
    | _ \<Rightarrow> False) \<and>
   call_times n h m = (h, replicate n (Inr (Inst m)))"
  by (simp add: call_times_eq)

text \<open>
  C7. Invocation has no effect: a call of a marker, with any arguments, leaves the whole
  store as it was; the call with no argument raises nothing; and the marker's
  \<^verbatim>\<open>provider\<close> reads the same after the call as before.
\<close>

theorem invocation_no_side_effect:
  "fst (Provide_call h m args) = h \<and>
   (\<exists>v. snd (Provide_call h m []) = Inr v) \<and>
   getattr (fst (Provide_call h m [])) m ''provider'' = getattr h m ''provider''"
  by (simp add: Provide_call_heap)

text \<open>
  C8. Two markers constructed from two distinct providers \<open>p\<close> and \<open>q\<close>, with any
  operations of the component run between the two constructions, are two instances (their
  addresses differ), the first wraps \<open>p\<close>, the second wraps \<open>q\<close>, and so what they wrap
  differs.
\<close>

theorem distinct_providers_distinct_markers:
  assumes "p \<noteq> q"
  shows "case ClassGetItemMeta_getitem h p of
     (h1, Inr (Inst m1)) \<Rightarrow>
       (case ClassGetItemMeta_getitem (run h1 ops) q of
          (h2, Inr (Inst m2)) \<Rightarrow>
            m1 \<noteq> m2 \<and> getattr h2 m1 ''provider'' = Inr p \<and> getattr h2 m2 ''provider'' = Inr q \<and>
            getattr h2 m1 ''provider'' \<noteq> getattr h2 m2 ''provider''
        | _ \<Rightarrow> False)
   | _ \<Rightarrow> False"
proof -
  let ?h1 = "h @ [[''provider'' \<mapsto> p]]"
  let ?h2 = "run ?h1 ops @ [[''provider'' \<mapsto> q]]"
  have len: "length h < length (run ?h1 ops)"
    using run_length [of ?h1 ops] by simp
  have "run ?h1 ops ! length h = ?h1 ! length h"
    by (rule run_keeps) simp
  with len have "getattr ?h2 (length h) ''provider'' = Inr p"
    by (simp add: getattr_def nth_append)
  moreover have "getattr ?h2 (length (run ?h1 ops)) ''provider'' = Inr q"
    by (rule getattr_new)
  ultimately show ?thesis
    using len assms by (simp add: getitem_eq)
qed

theorem distinct_providers_distinct_markers_witness:
  "Extern ''P'' \<noteq> (Extern ''Q'' :: string val) \<and>
   (case ClassGetItemMeta_getitem [] (Extern ''P'') of
     (h1, Inr (Inst m1)) \<Rightarrow>
       (case ClassGetItemMeta_getitem (run h1 [Invoke 0 []]) (Extern ''Q'') of
          (h2, Inr (Inst m2)) \<Rightarrow>
            m1 = 0 \<and> m2 = 1 \<and> getattr h2 m1 ''provider'' = Inr (Extern ''P'') \<and>
            getattr h2 m2 ''provider'' = Inr (Extern ''Q'')
        | _ \<Rightarrow> False)
   | _ \<Rightarrow> False)"
  using distinct_providers_distinct_markers
    [where p = "Extern ''P''" and q = "Extern ''Q''" and h = "[]" and ops = "[Invoke 0 []]"]
  by (simp add: getitem_eq)

text \<open>
  C9. The operations never use the provider. A provider is a value of the parameter type
  \<open>'x\<close>, on which the embedding of the source has no operation, and the theorem states
  what follows: construction and invocation commute with every replacement \<open>f\<close> of the
  external objects by others (of any type, so also one that forgets everything a provider
  is or does); the reference that \<^verbatim>\<open>Provide[p]\<close> returns is the same for any two
  providers, and the two stores differ only in the reference stored in the new marker;
  and what a call of a marker returns depends on nothing in the store, so not on the
  provider it wraps.
\<close>

theorem provider_never_used:
  "relabel_outcome f (ClassGetItemMeta_getitem h p) =
     ClassGetItemMeta_getitem (relabel_heap f h) (map_val f p) \<and>
   relabel_outcome f (Provide_call h m args) = Provide_call (relabel_heap f h) m args \<and>
   snd (ClassGetItemMeta_getitem h p1) = snd (ClassGetItemMeta_getitem h p2) \<and>
   setattr (fst (ClassGetItemMeta_getitem h p1)) (length h) ''provider'' p2 =
     Inr (fst (ClassGetItemMeta_getitem h p2)) \<and>
   snd (Provide_call h1 m args) = snd (Provide_call h2 m args)"
proof (intro conjI)
  show "relabel_outcome f (ClassGetItemMeta_getitem h p) =
     ClassGetItemMeta_getitem (relabel_heap f h) (map_val f p)"
    by (simp add: getitem_eq relabel_outcome_def relabel_heap_def relabel_new)
  show "relabel_outcome f (Provide_call h m args) = Provide_call (relabel_heap f h) m args"
    by (cases args) (simp_all add: relabel_outcome_def)
  show "snd (ClassGetItemMeta_getitem h p1) = snd (ClassGetItemMeta_getitem h p2)"
    by (simp add: getitem_eq)
  show "setattr (fst (ClassGetItemMeta_getitem h p1)) (length h) ''provider'' p2 =
     Inr (fst (ClassGetItemMeta_getitem h p2))"
    by (simp add: getitem_eq setattr_def)
  show "snd (Provide_call h1 m args) = snd (Provide_call h2 m args)"
    by (cases args) simp_all
qed

text \<open>
  C10. Every construction gives a fresh marker: the instance that \<^verbatim>\<open>Provide[p]\<close>
  returns is none of the instances of the store before the call, and a second
  \<^verbatim>\<open>Provide[p]\<close> with the same provider, after any operations of the component,
  returns another instance, both being in the store.
\<close>

theorem construction_is_fresh:
  "case ClassGetItemMeta_getitem h p of
     (h1, Inr (Inst m1)) \<Rightarrow>
       \<not> m1 < length h \<and>
       (case ClassGetItemMeta_getitem (run h1 ops) p of
          (h2, Inr (Inst m2)) \<Rightarrow> m1 \<noteq> m2 \<and> m1 < length h2 \<and> m2 < length h2
        | _ \<Rightarrow> False)
   | _ \<Rightarrow> False"
  using run_length [of "h @ [[''provider'' \<mapsto> p]]" ops]
  by (simp add: getitem_eq)

end
